theory Spec2Isabelle
  imports Main
begin

section \<open>JavaScript string operations used by \<open>src/lib/run.js\<close>\<close>

text \<open>
  Strings are \<open>char list\<close>. The functions below are the \<open>String.prototype\<close>
  methods and the regular-expression literals that \<open>run.js\<close> applies, restricted to the
  arguments the file passes them (separators and patterns are non-empty literals).
\<close>

text \<open>\<open>s.startsWith(p)\<close>.\<close>

fun startsWith :: "string \<Rightarrow> string \<Rightarrow> bool" where
  "startsWith s [] = True"
| "startsWith [] (p # ps) = False"
| "startsWith (c # cs) (p # ps) = (c = p \<and> startsWith cs ps)"

text \<open>\<open>s.includes(p)\<close>.\<close>

fun includesStr :: "string \<Rightarrow> string \<Rightarrow> bool" where
  "includesStr [] p = (p = [])"
| "includesStr (c # cs) p = (startsWith (c # cs) p \<or> includesStr cs p)"

text \<open>\<open>s.endsWith(p)\<close>.\<close>

definition endsWith :: "string \<Rightarrow> string \<Rightarrow> bool" where
  "endsWith s p = startsWith (rev s) (rev p)"

text \<open>\<open>s.split(sep)\<close> for a non-empty separator: the pieces between the
  non-overlapping occurrences of \<open>sep\<close>, scanned from the left; always at least one piece.\<close>

fun split :: "string \<Rightarrow> string \<Rightarrow> string list" where
  "split [] sep = [ [] ]"
| "split (c # cs) sep =
     (if sep \<noteq> [] \<and> startsWith (c # cs) sep
      then [] # split (drop (length sep - 1) cs) sep
      else (case split cs sep of
              [] \<Rightarrow> [ [c] ]
            | piece # pieces \<Rightarrow> (c # piece) # pieces))"

text \<open>\<open>parts.join(sep)\<close>.\<close>

fun joinWith :: "string \<Rightarrow> string list \<Rightarrow> string" where
  "joinWith sep [] = []"
| "joinWith sep [p] = p"
| "joinWith sep (p # q # ps) = p @ sep @ joinWith sep (q # ps)"

text \<open>\<open>s.replace(pat, rep)\<close> with a string pattern: the first occurrence only. The
  replacement strings of \<open>run.js\<close> hold no \<open>$\<close> pattern, so they are inserted as they are.\<close>

fun replaceFirst :: "string \<Rightarrow> string \<Rightarrow> string \<Rightarrow> string" where
  "replaceFirst pat rep [] = []"
| "replaceFirst pat rep (c # cs) =
     (if pat \<noteq> [] \<and> startsWith (c # cs) pat
      then rep @ drop (length pat - 1) cs
      else c # replaceFirst pat rep cs)"

text \<open>\<open>s.replace(/pat/g, rep)\<close> for a literal pattern: every non-overlapping occurrence,
  scanned from the left.\<close>

fun replaceAll :: "string \<Rightarrow> string \<Rightarrow> string \<Rightarrow> string" where
  "replaceAll pat rep [] = []"
| "replaceAll pat rep (c # cs) =
     (if pat \<noteq> [] \<and> startsWith (c # cs) pat
      then rep @ replaceAll pat rep (drop (length pat - 1) cs)
      else c # replaceAll pat rep cs)"

text \<open>\<open>s.replace(/\/+$/, "")\<close> and \<open>s.replace(/^\/+/, "")\<close>.\<close>

definition removeTrailingSlashes :: "string \<Rightarrow> string" where
  "removeTrailingSlashes s = rev (dropWhile (\<lambda>c. c = CHR ''/'') (rev s))"

definition removeLeadingSlashes :: "string \<Rightarrow> string" where
  "removeLeadingSlashes s = dropWhile (\<lambda>c. c = CHR ''/'') s"

text \<open>\<open>s.toLowerCase()\<close> on the ASCII letters; every other character is kept.\<close>

definition toLowerCase :: "string \<Rightarrow> string" where
  "toLowerCase s =
     map (\<lambda>c. case map_of (zip ''ABCDEFGHIJKLMNOPQRSTUVWXYZ'' ''abcdefghijklmnopqrstuvwxyz'') c of
                 None \<Rightarrow> c
               | Some l \<Rightarrow> l) s"



text \<open>The character class \<open>[a-z0-9]\<close>.\<close>

definition isLowerAlnum :: "char \<Rightarrow> bool" where
  "isLowerAlnum c = (c \<in> set ''abcdefghijklmnopqrstuvwxyz0123456789'')"



section \<open>Markdown heading slugs\<close>





section \<open>Responses, collaborators and the preview session\<close>

text \<open>
  What \<open>webServer.send(id, {status, body | path, headers})\<close> is given. The
  \<open>Content-Type\<close> value is \<open>None\<close> where the source passes no header or the \<open>false\<close> that
  \<open>mimeType.lookup\<close> returns for an unknown extension.
\<close>

datatype payload = Body string | Path string

record response =
  requestId :: string
  status :: nat
  content :: payload
  contentType :: "string option"

text \<open>The 404 response of \<open>error(id)\<close> and the 200 response at the end of \<open>sendFile\<close>.\<close>

definition notFound :: "string \<Rightarrow> response" where
  "notFound rid =
     \<lparr>requestId = rid, status = 404, content = Body ''File not found!'', contentType = None\<rparr>"

definition fileResponse :: "string \<Rightarrow> string \<Rightarrow> string option \<Rightarrow> response" where
  "fileResponse rid path mimetype =
     \<lparr>requestId = rid, status = 200, content = Path path, contentType = mimetype\<rparr>"

text \<open>An exception that is thrown, or the reason of a promise that rejects.\<close>

datatype fault = TypeError | URIError | IOError

text \<open>
  The fields of an \<open>EditorFile\<close> that \<open>run.js\<close> reads; \<open>getValue\<close> is
  \<open>file.session.getValue()\<close>. A \<open>null\<close> location or URI is \<open>None\<close>.
\<close>

record editorFile =
  filename :: string
  location :: "string option"
  uri :: "string option"
  mode :: string
  SAFMode :: string
  loaded :: bool
  isUnsaved :: bool
  getValue :: string

text \<open>
  The collaborators of \<open>run.js\<close> whose code is not part of it, as parameters:
  the helpers of \<open>utils/Url\<close> and \<open>mime-types\<close>, the string hash, the built-in
  \<open>decodeURIComponent\<close> (\<open>None\<close> where it throws), the global directories, the
  templates, the settings, the editor (\<open>activeFile\<close> is \<open>None\<close> for the \<open>null\<close> of a console
  run, \<open>addedFolder0\<close> is \<open>addedFolder[0].url\<close>, \<open>getFile url\<close> is
  \<open>editorManager.getFile(url, "uri")\<close>) and the answers of the file system
  (\<open>fsOperation(u).exists()\<close>, \<open>.stat()\<close> as the pair of \<open>exists\<close> and \<open>isFile\<close>,
  \<open>.readFile()\<close>; \<open>None\<close> where the promise rejects) and of
  \<open>system.isPowerSaveMode\<close>. \<open>injected t\<close> is the block that \<open>sendHTML\<close> inserts when the
  target is \<open>t\<close>: the template literal of the source (comment markers, viewport meta
  tag, the two script elements of class \<open>uuid\<close>), built from \<open>uuid\<close>,
  \<open>CONSOLE_SCRIPT\<close>, \<open>target\<close> and a setting only, never from the served text.
\<close>

datatype target = InApp | Browser

record env =
  getProtocol :: "string \<Rightarrow> string"
  extname :: "string \<Rightarrow> string"
  join :: "string \<Rightarrow> string \<Rightarrow> string"
  lookup :: "string \<Rightarrow> string option"
  hashCode :: "string \<Rightarrow> string"
  decodeURIComponent :: "string \<Rightarrow> string option"
  CACHE_STORAGE :: string
  ASSETS_DIRECTORY :: string
  DATA_STORAGE :: string
  uuid :: string
  injected :: "target \<Rightarrow> string"
  consoleHtml :: "string \<Rightarrow> string"
  renderMarkdown :: "string \<Rightarrow> string"
  legacyConsole :: bool
  markdownStyle :: "string option"
  activeFile :: "editorFile option"
  addedFolder0 :: "string option"
  getFile :: "string \<Rightarrow> editorFile option"
  fsExists :: "string \<Rightarrow> bool option"
  fsStat :: "string \<Rightarrow> (bool \<times> bool) option"
  fsReadFile :: "string \<Rightarrow> string option"
  isPowerSaveMode :: "bool option"

text \<open>
  An activation of \<open>sendFile\<close> that is parked at one of its \<open>await\<close>s, with the local
  variables it still needs (request id and MIME type first):
  \<^item> \<open>RemoteRead id mimetype cacheFile\<close>: the \<open>fs.readFile()\<close> of the ftp/sftp branch;
  \<^item> \<open>FormatUri id mimetype\<close>: the \<open>sdcard.formatUri\<close> promise of the \<open>content:\<close> branch;
  \<^item> \<open>ReadContent path id mimetype\<close>: the \<open>readFile()\<close> of the last branch;
  \<^item> \<open>CacheExists id mimetype tempFileName tempFile\<close>: its \<open>exists()\<close>;
  \<^item> \<open>CacheStore id mimetype tempFile\<close>: its \<open>createFile\<close> or \<open>writeFile\<close>.
\<close>

datatype task =
    RemoteRead string "string option" string
  | FormatUri string "string option"
  | ReadContent string string "string option"
  | CacheExists string "string option" string string
  | CacheStore string "string option" string

text \<open>How an awaited promise settles: it rejects, or resolves with nothing of
  interest, with a boolean, or with a string (a file's content, a URI).\<close>

datatype outcome = Rejected | Done | Answer bool | Text string

text \<open>A browser that was opened on \<open>http://localhost:<port>/<path>\<close>, kept as the port and
  the path, with the target it was opened for.\<close>

record browserOpen =
  onPort :: int
  onPath :: string
  via :: target

text \<open>
  The closure variables of \<open>run()\<close> that its nested functions share, the module's
  \<open>webServer\<close> handle (the port it was created on), and the effects on the collaborators:
  \<^item> \<open>sent\<close>: the calls of \<open>webServer.send\<close>, in order;
  \<^item> \<open>suspended\<close>: the activations of \<open>sendFile\<close> parked at an \<open>await\<close>;
  \<^item> \<open>escaped\<close>: the requests whose handling ended in an exception nobody catches
    (the promise of the \<open>async\<close> function rejects), with the fault;
  \<^item> \<open>created\<close>: the ports \<open>CreateServer\<close> was called with; \<open>stops\<close>: the calls of
    \<open>webServer.stop()\<close>; \<open>opened\<close>: the browsers opened; \<open>alerts\<close>: the power-save alerts.
  A queued continuation \<open>() => { sendFile(path, id) }\<close> is kept as the pair
  \<open>(path, id)\<close> it closes over. \<open>fileName\<close> is the variable \<open>filename\<close> of \<open>run()\<close>
  (an empty string where it is \<open>undefined\<close>), \<open>pathName\<close> is \<open>None\<close> where it is \<open>null\<close>.
\<close>

record session =
  webServer :: "int option"
  port :: int
  target :: target
  isConsole :: bool
  isLoading :: bool
  isFallback :: bool
  fileName :: string
  pathName :: "string option"
  EXECUTING_SCRIPT :: string
  queue :: "(string \<times> string) list"
  sent :: "response list"
  suspended :: "task list"
  escaped :: "(string \<times> fault) list"
  created :: "int list"
  stops :: nat
  opened :: "browserOpen list"
  alerts :: nat

text \<open>\<open>webServer?.send(id, msg)\<close>: nothing happens without a server handle.\<close>

definition send :: "response \<Rightarrow> session \<Rightarrow> session" where
  "send r s = (case webServer s of None \<Rightarrow> s | Some h \<Rightarrow> s\<lparr>sent := sent s @ [r]\<rparr>)"

text \<open>\<open>error(id)\<close>: the 404 response.\<close>

definition error :: "string \<Rightarrow> session \<Rightarrow> session" where
  "error rid s = send (notFound rid) s"

text \<open>An exception leaves the \<open>async\<close> function that handles request \<open>rid\<close>.\<close>

definition throw :: "string \<Rightarrow> fault \<Rightarrow> session \<Rightarrow> session" where
  "throw rid f s = s\<lparr>escaped := escaped s @ [(rid, f)]\<rparr>"

text \<open>\<open>sendText(text, id, mimeType)\<close>; the source never passes \<open>processText\<close>.
  \<open>mimeType || "text/html"\<close> falls back for \<open>undefined\<close>, \<open>false\<close> and the empty string.\<close>

definition sendText :: "string \<Rightarrow> string \<Rightarrow> string option \<Rightarrow> session \<Rightarrow> session" where
  "sendText text rid mime s =
     send \<lparr>requestId = rid, status = 200, content = Body text,
           contentType = Some (case mime of None \<Rightarrow> ''text/html''
                                | Some m \<Rightarrow> if m = [] then ''text/html'' else m)\<rparr> s"


section \<open>HTML instrumentation injection\<close>

text \<open>
  \<open>sendHTML(text, id)\<close>, for the injected block \<open>js\<close>. \<open>instrument\<close> is the text that
  \<open>sendHTML\<close> hands to \<open>sendText\<close>; \<open>crossoriginClose\<close> is the replacement string of its
  first line, \<^verbatim>\<open> crossorigin="anonymous"></script>\<close>. The test \<open>/<html>/i\<close> ignores the case
  of the ASCII letters; \<open>text.replace("<html>", ...)\<close> does not.
\<close>

definition crossoriginClose :: string where
  "crossoriginClose =
     '' crossorigin='' @ [CHR 0x22] @ ''anonymous'' @ [CHR 0x22] @ ''></script>''"

definition instrument :: "string \<Rightarrow> string \<Rightarrow> string" where
  "instrument js text0 =
     (let text = replaceAll ''></script>'' crossoriginClose text0;
          part = split text ''<head>''
      in if length part = 2 then part ! 0 @ ''<head>'' @ js @ part ! 1
         else if includesStr (toLowerCase text) ''<html>''
         then replaceFirst ''<html>'' (''<html><head>'' @ js @ ''</head>'') text
         else ''<head>'' @ js @ ''</head>'' @ text)"

definition sendHTML :: "env \<Rightarrow> string \<Rightarrow> string \<Rightarrow> session \<Rightarrow> session" where
  "sendHTML E text rid s = sendText (instrument (injected E (target s)) text) rid None s"


section \<open>The fetch serializer: \<open>sendFile\<close>\<close>

text \<open>
  \<open>sendFile(path, id)\<close> runs until its first \<open>await\<close> or its end. With the flag
  \<open>isLoading\<close> set it only queues a continuation. Otherwise it sets the flag and, by
  the protocol of \<open>path\<close>, parks at the first \<open>await\<close> of its branch (\<open>/s?ftp:/\<close> matches
  any protocol that holds \<open>ftp:\<close>) or, for a \<open>file:\<close> path, goes on at once.
  \<open>deliver\<close> is the end of \<open>sendFile\<close>, from \<open>webServer?.send\<close> on: the response with the
  path to stream, the flag cleared, and the continuation that \<open>queue.splice(-1, 1)\<close>
  takes, the last of the list, run if there is one; running it is a call of \<open>sendFile\<close>.
\<close>

function sendFile :: "env \<Rightarrow> string \<Rightarrow> string \<Rightarrow> session \<Rightarrow> session"
  and deliver :: "env \<Rightarrow> string \<Rightarrow> string \<Rightarrow> string option \<Rightarrow> session \<Rightarrow> session"
where
  "sendFile E path rid s =
     (if isLoading s then s\<lparr>queue := queue s @ [(path, rid)]\<rparr>
      else
        (let s1 = s\<lparr>isLoading := True\<rparr>;
             protocol = getProtocol E path;
             ext = extname E path;
             mimetype = lookup E ext
         in if includesStr protocol ''ftp:''
            then s1\<lparr>suspended := suspended s1 @
                   [RemoteRead rid mimetype
                      (join E (CACHE_STORAGE E) (butlast protocol @ hashCode E path))]\<rparr>
            else if protocol = ''content:''
            then s1\<lparr>suspended := suspended s1 @ [FormatUri rid mimetype]\<rparr>
            else if \<not> startsWith protocol ''file:''
            then s1\<lparr>suspended := suspended s1 @ [ReadContent path rid mimetype]\<rparr>
            else deliver E path rid mimetype s1))"
| "deliver E path rid mimetype s =
     (let s1 = send (fileResponse rid path mimetype) s;
          s2 = s1\<lparr>isLoading := False\<rparr>
      in if queue s2 = [] then s2
         else sendFile E (fst (last (queue s2))) (snd (last (queue s2)))
                (s2\<lparr>queue := butlast (queue s2)\<rparr>))"
  by pat_completeness auto
termination
  by (relation "measures [\<lambda>x. case x of Inl (E, p, i, s) \<Rightarrow> length (queue s)
                                      | Inr (E, p, i, m, s) \<Rightarrow> length (queue s),
                         \<lambda>x. case x of Inl a \<Rightarrow> 1 | Inr b \<Rightarrow> 0]")
     (auto simp: send_def split: option.splits)

declare sendFile.simps [simp del]
declare deliver.simps [simp del]

text \<open>
  An activation goes on when the promise it awaits settles. A rejected remote read is
  caught: the 404, the flag cleared, and \<open>return\<close>. No other \<open>await\<close> of \<open>sendFile\<close> is
  inside a \<open>try\<close>, so a rejection there leaves the function as an exception. A
  promise resolves with a value of its kind (the content read, the formatted URI,
  the answer of \<open>exists()\<close>); an outcome of another kind counts as a rejection.
\<close>

fun resume :: "env \<Rightarrow> task \<Rightarrow> outcome \<Rightarrow> session \<Rightarrow> session" where
  "resume E (RemoteRead rid mimetype cacheFile) Rejected s = (error rid s)\<lparr>isLoading := False\<rparr>"
| "resume E (RemoteRead rid mimetype cacheFile) out s = deliver E cacheFile rid mimetype s"
| "resume E (FormatUri rid mimetype) (Text p) s = deliver E p rid mimetype s"
| "resume E (FormatUri rid mimetype) out s = throw rid IOError s"
| "resume E (ReadContent path rid mimetype) (Text fileContent) s =
     s\<lparr>suspended := suspended s @
          [CacheExists rid mimetype (hashCode E path)
             (join E (CACHE_STORAGE E) (hashCode E path))]\<rparr>"
| "resume E (ReadContent path rid mimetype) out s = throw rid IOError s"
| "resume E (CacheExists rid mimetype tempFileName tempFile) (Answer b) s =
     s\<lparr>suspended := suspended s @ [CacheStore rid mimetype tempFile]\<rparr>"
| "resume E (CacheExists rid mimetype tempFileName tempFile) out s = throw rid IOError s"
| "resume E (CacheStore rid mimetype tempFile) Rejected s = throw rid IOError s"
| "resume E (CacheStore rid mimetype tempFile) out s = deliver E tempFile rid mimetype s"

text \<open>
  What happens to a session while its server listens, as far as \<open>sendFile\<close> goes:
  the request handler calls \<open>sendFile(path, id)\<close>, or the promise that the \<open>k\<close>-th
  parked activation awaits settles. \<open>run\<close> lets a list of events happen in order.
\<close>

datatype event = Invoke string string | Settle nat outcome

fun step :: "env \<Rightarrow> event \<Rightarrow> session \<Rightarrow> session" where
  "step E (Invoke path rid) s = sendFile E path rid s"
| "step E (Settle k out) s =
     (if k < length (suspended s)
      then resume E (suspended s ! k) out
             (s\<lparr>suspended := take k (suspended s) @ drop (Suc k) (suspended s)\<rparr>)
      else s)"

fun run :: "env \<Rightarrow> event list \<Rightarrow> session \<Rightarrow> session" where
  "run E [] s = s"
| "run E (e # es) s = run E es (step E e s)"


section \<open>\<open>sendFileContent\<close>\<close>

text \<open>
  \<open>sendFileContent(url, id, mime)\<close>; the source never passes \<open>processText\<close>. The answers
  of the file system are those of the environment, and the function is followed from
  its call to its end in one step: between its \<open>await\<close>s it keeps to its own local
  variables. None of its \<open>await\<close>s is inside a \<open>try\<close>. \<open>Url.join(pathName, filename)\<close>
  on a \<open>null\<close> \<open>pathName\<close> is taken to throw.
\<close>

definition sendFileContent :: "env \<Rightarrow> string \<Rightarrow> string \<Rightarrow> string option \<Rightarrow> session \<Rightarrow> session" where
  "sendFileContent E url rid mime s =
     (case fsExists E url of
        None \<Rightarrow> throw rid IOError s
      | Some False \<Rightarrow>
          (case pathName s of
             None \<Rightarrow> throw rid TypeError s
           | Some dir \<Rightarrow>
               (case fsExists E (join E dir (fileName s)) of
                  None \<Rightarrow> throw rid IOError s
                | Some True \<Rightarrow> s\<lparr>isFallback := True\<rparr>
                | Some False \<Rightarrow> error rid s))
      | Some True \<Rightarrow>
          (case fsReadFile E url of
             None \<Rightarrow> throw rid IOError s
           | Some text \<Rightarrow>
               if mime = lookup E ''html'' then sendHTML E text rid s
               else sendText text rid mime s))"


section \<open>The path resolver: \<open>getRelativePath\<close>\<close>

definition termuxRootEncoded :: string where
  "termuxRootEncoded =
     ''content://com.termux.documents/tree/%2Fdata%2Fdata%2Fcom.termux%2Ffiles%2Fhome''"

text \<open>\<open>pieces[1]\<close> of a split: \<open>None\<close> for \<open>undefined\<close>.\<close>

fun second :: "'a list \<Rightarrow> 'a option" where
  "second (a # b # rest) = Some b"
| "second rest = None"

text \<open>\<open>makeUriAbsoluteIfNeeded(uri)\<close>; its \<open>decodeURIComponent\<close> is not inside a
  \<open>try\<close>. \<open>uri.split("tree/")[1] || ""\<close> is the empty string for a missing piece.\<close>

definition makeUriAbsoluteIfNeeded :: "env \<Rightarrow> string \<Rightarrow> fault + string" where
  "makeUriAbsoluteIfNeeded E u =
     (if startsWith u termuxRootEncoded
      then if includesStr u ''::'' then Inr u
           else (case decodeURIComponent E
                        (case second (split u ''tree/'') of None \<Rightarrow> [] | Some piece \<Rightarrow> piece) of
                   None \<Rightarrow> Inl URIError
                 | Some decodedPath \<Rightarrow> Inr (termuxRootEncoded @ ''::'' @ decodedPath @ ''/''))
      else Inr u)"

text \<open>\<open>uri.match(/tree\/([^:]+)/)\<close>: the first group of the leftmost match, that is,
  the colon-free run after the first \<open>tree/\<close> that is followed by one.\<close>

fun treeMatch :: "string \<Rightarrow> string option" where
  "treeMatch [] = None"
| "treeMatch (c # cs) =
     (if startsWith (c # cs) ''tree/'' \<and> takeWhile (\<lambda>x. x \<noteq> CHR '':'') (drop 4 cs) \<noteq> []
      then Some (takeWhile (\<lambda>x. x \<noteq> CHR '':'') (drop 4 cs))
      else treeMatch cs)"

text \<open>The active file has a URI of a Termux document tree (the first test of
  \<open>getRelativePath\<close>).\<close>

definition termuxUri :: "env \<Rightarrow> string option" where
  "termuxUri E =
     (case activeFile E of
        None \<Rightarrow> None
      | Some f \<Rightarrow>
          (case uri f of
             None \<Rightarrow> None
           | Some u \<Rightarrow>
               if u \<noteq> [] \<and> includesStr u ''com.termux.documents'' \<and> includesStr u ''tree/''
               then Some u else None))"

text \<open>The root folder that \<open>getRelativePath\<close> starts from, before
  \<open>makeUriAbsoluteIfNeeded\<close>; \<open>None\<close> is the \<open>null\<close> of \<open>pathName\<close>. A tree segment that
  fails to decode leaves the root as it was.\<close>

definition chooseRoot :: "env \<Rightarrow> session \<Rightarrow> string option" where
  "chooseRoot E s =
     (case termuxUri E of
        Some u \<Rightarrow>
          (case treeMatch u of
             None \<Rightarrow> pathName s
           | Some m \<Rightarrow>
               (case decodeURIComponent E m of
                  None \<Rightarrow> pathName s
                | Some decodedRoot \<Rightarrow> Some decodedRoot))
      | None \<Rightarrow>
          (case (addedFolder0 E, pathName s) of
             (Some projectUrl, Some p) \<Rightarrow>
               if p \<noteq> [] \<and> includesStr p projectUrl then Some projectUrl else pathName s
           | (x, y) \<Rightarrow> pathName s))"

text \<open>\<open>u.split("?")[0]\<close> for an ftp or sftp URI with a query string.\<close>

definition beforeQuery :: "string \<Rightarrow> string" where
  "beforeQuery u = (case split u ''?'' of [] \<Rightarrow> [] | piece # pieces \<Rightarrow> piece)"

text \<open>The block "special handling for Termux URIs": \<open>Some\<close> is its \<open>return\<close>,
  \<open>None\<close> falls through.\<close>

definition termuxRelative :: "string \<Rightarrow> string \<Rightarrow> string option" where
  "termuxRelative rootFolder temp =
     (if includesStr temp ''com.termux.documents'' \<and> includesStr temp ''::''
      then (case second (split temp ''::'') of
              None \<Rightarrow> None
            | Some realPath \<Rightarrow>
                (let normalizedRoot = removeTrailingSlashes rootFolder
                 in if startsWith realPath normalizedRoot
                    then (let relativePath =
                                removeLeadingSlashes (drop (length normalizedRoot) realPath)
                          in if relativePath \<noteq> [] then Some relativePath else None)
                    else None))
      else None)"

text \<open>The block "handle other content:// URIs".\<close>

definition contentRelative :: "env \<Rightarrow> string \<Rightarrow> string \<Rightarrow> string option" where
  "contentRelative E rootFolder temp =
     (if includesStr temp ''content://'' \<and> includesStr temp ''::''
      then (case second (split temp ''::'') of
              None \<Rightarrow> None
            | Some afterDoubleColon \<Rightarrow>
                if afterDoubleColon = [] then None
                else
                  (let rootFolderPath0 =
                         (if includesStr rootFolder ''::''
                          then (case second (split rootFolder ''::'') of
                                  None \<Rightarrow> rootFolder | Some piece \<Rightarrow> piece)
                          else rootFolder);
                       lastPart = last (split rootFolder ''/'');
                       rootFolderPath =
                         (if \<not> includesStr rootFolderPath0 ''::''
                          then if includesStr lastPart ''%3A''
                               then (case decodeURIComponent E lastPart of
                                       None \<Rightarrow> lastPart | Some decoded \<Rightarrow> decoded)
                               else lastPart
                          else rootFolderPath0);
                       normalizedRoot = removeTrailingSlashes rootFolderPath
                   in if startsWith afterDoubleColon normalizedRoot
                      then (let relativePath =
                                  removeLeadingSlashes
                                    (drop (length normalizedRoot) afterDoubleColon)
                            in if relativePath \<noteq> [] then Some relativePath else None)
                      else None))
      else None)"

text \<open>The loop that counts the leading segments two paths share.\<close>

fun commonIndex :: "string list \<Rightarrow> string list \<Rightarrow> nat" where
  "commonIndex (r # rs) (t # ts) = (if r = t then Suc (commonIndex rs ts) else 0)"
| "commonIndex rs ts = 0"

text \<open>
  \<open>getRelativePath()\<close>. A \<open>null\<close> root or \<open>pathName\<close> makes \<open>startsWith\<close> throw a
  \<open>TypeError\<close>, outside every \<open>try\<close>.
\<close>

definition getRelativePath :: "env \<Rightarrow> session \<Rightarrow> fault + string" where
  "getRelativePath E s =
     (case chooseRoot E s of
        None \<Rightarrow> Inl TypeError
      | Some root0 \<Rightarrow>
          (case makeUriAbsoluteIfNeeded E root0 of
             Inl f \<Rightarrow> Inl f
           | Inr root1 \<Rightarrow>
               (case pathName s of
                  None \<Rightarrow> Inl TypeError
                | Some filePath0 \<Rightarrow>
                    (let rootFolder =
                           (if (startsWith root1 ''ftp:'' \<or> startsWith root1 ''sftp:'') \<and>
                               includesStr root1 ''?''
                            then beforeQuery root1 else root1);
                         filePath =
                           (if (startsWith filePath0 ''ftp:'' \<or> startsWith rootFolder ''sftp:'') \<and>
                               includesStr filePath0 ''?''
                            then beforeQuery filePath0 else filePath0);
                         temp = join E filePath (fileName s)
                     in case termuxRelative rootFolder temp of
                          Some relativePath \<Rightarrow> Inr relativePath
                        | None \<Rightarrow>
                            (case contentRelative E rootFolder temp of
                               Some relativePath \<Rightarrow> Inr relativePath
                             | None \<Rightarrow>
                                 (let rootParts = split rootFolder ''/'';
                                      tempParts = split temp ''/'';
                                      common = commonIndex rootParts tempParts
                                  in if common > 0
                                     then Inr (joinWith ''/'' (drop common tempParts))
                                     else if fileName s \<noteq> [] then Inr (fileName s)
                                     else Inr temp))))))"


section \<open>Starting the server\<close>

text \<open>
  \<open>openBrowser()\<close>: \<open>system.openInBrowser(url)\<close> or \<open>browser.open(url, isConsole)\<close> by the
  target. It is a callback of the transport, so an exception in it belongs to no
  request and is logged with the empty request id.
\<close>

definition openUrl :: "string \<Rightarrow> session \<Rightarrow> session" where
  "openUrl p s = s\<lparr>opened := opened s @ [\<lparr>onPort = port s, onPath = p, via = target s\<rparr>]\<rparr>"

definition openBrowser :: "env \<Rightarrow> session \<Rightarrow> session" where
  "openBrowser E s =
     (case pathName s of
        None \<Rightarrow>
          (case activeFile E of
             None \<Rightarrow> throw [] TypeError s
           | Some f \<Rightarrow>
               if location f = None \<or> location f = Some []
               then openUrl ''__unsaved_file__'' s
               else (case getRelativePath E s of
                       Inl x \<Rightarrow> throw [] x s
                     | Inr p \<Rightarrow> openUrl p s))
      | Some dir \<Rightarrow>
          (case getRelativePath E s of
             Inl x \<Rightarrow> throw [] x s
           | Inr p \<Rightarrow> openUrl p s))"

text \<open>\<open>startServer()\<close> up to its two calls: the old handle is stopped if there is one,
  and a server is created on the current port.\<close>

definition startServer :: "session \<Rightarrow> session" where
  "startServer s =
     s\<lparr>stops := (case webServer s of None \<Rightarrow> stops s | Some h \<Rightarrow> Suc (stops s)),
       webServer := Some (port s),
       created := created s @ [port s]\<rparr>"

text \<open>\<open>start()\<close>: for the browser target the server starts unless the device answers
  that it is in power-save mode (a failed query starts it too).\<close>

definition start :: "env \<Rightarrow> session \<Rightarrow> session" where
  "start E s =
     (if target s = Browser
      then (case isPowerSaveMode E of
              Some True \<Rightarrow> s\<lparr>alerts := Suc (alerts s)\<rparr>
            | Some False \<Rightarrow> startServer s
            | None \<Rightarrow> startServer s)
      else startServer s)"

text \<open>\<open>onError(err)\<close>, the error callback given to \<open>CreateServer\<close>.\<close>

definition onError :: "env \<Rightarrow> string \<Rightarrow> session \<Rightarrow> session" where
  "onError E err s =
     (if err = ''Server already running'' then openBrowser E s
      else start E (s\<lparr>port := port s + 1\<rparr>))"

text \<open>The transport reports one bind failure after the other.\<close>

fun onErrors :: "env \<Rightarrow> string list \<Rightarrow> session \<Rightarrow> session" where
  "onErrors E [] s = s"
| "onErrors E (err # errs) s = onErrors E errs (onError E err s)"


section \<open>The request handler\<close>

text \<open>\<open>removePrefix\<close> and \<open>findOverlap\<close>, the local functions of \<open>sendByExt\<close>: the
  longest end of \<open>a\<close> that is a start of \<open>b\<close>.\<close>

definition removePrefix :: "string \<Rightarrow> string \<Rightarrow> string" where
  "removePrefix str pre = (if startsWith str pre then drop (length pre) str else str)"

definition findOverlap :: "string \<Rightarrow> string \<Rightarrow> string" where
  "findOverlap a b =
     foldl (\<lambda>maxOverlap i.
              if drop (length a - i) a = take i b then drop (length a - i) a else maxOverlap)
       [] [1 ..< Suc (min (length a) (length b))]"

text \<open>\<open>sendIco(ASSETS_DIRECTORY, reqId)\<close>.\<close>

definition sendIco :: "env \<Rightarrow> string \<Rightarrow> session \<Rightarrow> session" where
  "sendIco E rid s = sendFile E (join E (ASSETS_DIRECTORY E) ''res/logo/favicon.ico'') rid s"

text \<open>The path that \<open>sendByExt\<close> builds from a non-empty \<open>pathName\<close> and the request
  path, up to \<open>fullPath\<close> before the \<open>stat()\<close>.\<close>

definition fullPathOf :: "env \<Rightarrow> string \<Rightarrow> string \<Rightarrow> string" where
  "fullPathOf E dir reqPath =
     (let rootFolder0 =
            (case addedFolder0 E of
               None \<Rightarrow> dir
             | Some projectUrl \<Rightarrow> if includesStr dir projectUrl then projectUrl else dir);
          rootFolder1 =
            (if (startsWith rootFolder0 ''ftp:'' \<or> startsWith rootFolder0 ''sftp:'') \<and>
                includesStr rootFolder0 ''?''
             then beforeQuery rootFolder0 else rootFolder0);
          rootFolder = removeTrailingSlashes rootFolder1;
          rootParts = split rootFolder ''/'';
          pathParts0 = split (removeLeadingSlashes reqPath) ''/'';
          pathParts = (if hd pathParts0 = last rootParts then tl pathParts0 else pathParts0);
          overlap = findOverlap rootFolder (joinWith ''/'' pathParts)
      in if overlap \<noteq> []
         then join E rootFolder (removePrefix (joinWith ''/'' pathParts) overlap)
         else join E rootFolder (joinWith ''/'' pathParts))"

text \<open>
  The \<open>switch (ext)\<close> of \<open>sendByExt\<close>, for the resolved \<open>url\<close> (\<open>None\<close> is \<open>null\<close>) and
  the open document \<open>file\<close> if any. The \<open>.md\<close> case has no \<open>else\<close>. \<open>fsOperation\<close> on a
  \<open>null\<close> URL is taken to throw.
\<close>

definition sendFileContentOf :: "env \<Rightarrow> string option \<Rightarrow> string \<Rightarrow> string option \<Rightarrow> session \<Rightarrow> session" where
  "sendFileContentOf E url rid mime s =
     (case url of None \<Rightarrow> throw rid TypeError s | Some u \<Rightarrow> sendFileContent E u rid mime s)"

definition unsavedOpen :: "editorFile option \<Rightarrow> editorFile option" where
  "unsavedOpen file =
     (case file of
        None \<Rightarrow> None
      | Some f \<Rightarrow> if loaded f \<and> isUnsaved f then Some f else None)"

definition byExt :: "env \<Rightarrow> string \<Rightarrow> string \<Rightarrow> string \<Rightarrow> string option \<Rightarrow> editorFile option \<Rightarrow> session \<Rightarrow> session" where
  "byExt E reqPath ext rid url file s =
     (if ext = ''.htm'' \<or> ext = ''.html''
      then (case unsavedOpen file of
              Some f \<Rightarrow> sendHTML E (getValue f) rid s
            | None \<Rightarrow> sendFileContentOf E url rid (lookup E ''html'') s)
      else if ext = ''.md''
      then (case file of
              Some f \<Rightarrow> sendText (renderMarkdown E (getValue f)) rid (lookup E ''html'') s
            | None \<Rightarrow> s)
      else (case unsavedOpen file of
              Some f \<Rightarrow>
                if endsWith (filename f) ''.html'' then sendHTML E (getValue f) rid s
                else sendText (getValue f) rid (lookup E (filename f)) s
            | None \<Rightarrow>
                (case url of
                   None \<Rightarrow> error rid s
                 | Some u \<Rightarrow>
                     if u = [] then error rid s
                     else if reqPath = ''favicon.ico'' then sendIco E rid s
                     else sendFile E u rid s)))"

text \<open>
  \<open>sendByExt()\<close> for the request path \<open>reqPath\<close> and the extension \<open>ext\<close> that
  \<open>handleRequest\<close> took from it. \<open>activeFile.mode\<close> on the \<open>null\<close> file of a console run
  and \<open>url.split\<close> on a \<open>null\<close> URI throw a \<open>TypeError\<close>; the \<open>await urlFile.stat()\<close> is not
  inside a \<open>try\<close>.
\<close>

definition sendByExt :: "env \<Rightarrow> string \<Rightarrow> string \<Rightarrow> string \<Rightarrow> session \<Rightarrow> session" where
  "sendByExt E reqPath ext rid s =
     (if isConsole s \<and> reqPath = ''console.html''
      then sendText (consoleHtml E (EXECUTING_SCRIPT s)) rid (lookup E ''html'') s
      else if isConsole s \<and> reqPath = ''favicon.ico'' then sendIco E rid s
      else
        (case activeFile E of
           None \<Rightarrow> throw rid TypeError s
         | Some af \<Rightarrow>
             if mode af = ''single''
             then if fileName s = reqPath
                  then sendText (getValue af) rid (lookup E (fileName s)) s
                  else error rid s
             else
               (case pathName s of
                  None \<Rightarrow>
                    byExt E reqPath ext rid (uri af)
                      (if uri af = None \<or> uri af = Some [] \<or> SAFMode af = ''single''
                       then Some af else None) s
                | Some dir \<Rightarrow>
                    if dir = []
                    then byExt E reqPath ext rid (uri af)
                           (if uri af = None \<or> uri af = Some [] \<or> SAFMode af = ''single''
                            then Some af else None) s
                    else
                      (case uri af of
                         None \<Rightarrow> throw rid TypeError s
                       | Some u \<Rightarrow>
                           (case fsStat E (fullPathOf E dir reqPath) of
                              None \<Rightarrow> throw rid IOError s
                            | Some (exists, isFile) \<Rightarrow>
                                if \<not> exists then error rid s
                                else
                                  (let fullPath0 = fullPathOf E dir reqPath;
                                       fullPath =
                                         (if isFile then fullPath0
                                          else if endsWith fullPath0 ''/''
                                          then fullPath0 @ ''index.html''
                                          else fullPath0 @ ''/index.html'');
                                       url = (case second (split u ''?'') of
                                                None \<Rightarrow> fullPath
                                              | Some query \<Rightarrow>
                                                  if query = [] then fullPath
                                                  else fullPath @ ''?'' @ query)
                                   in byExt E (removeLeadingSlashes reqPath) ext rid (Some url)
                                        (getFile E url) s))))))"

text \<open>
  \<open>handleRequest(req)\<close> for \<open>req.path\<close> and \<open>req.requestId\<close>. The three synthetic
  endpoints are \<open>uuid\<close> with a suffix, but \<open>EXECUTING_SCRIPT\<close> is a variable that
  \<open>startConsole\<close> may have set to a file name.
\<close>

definition handleRequest :: "env \<Rightarrow> string \<Rightarrow> string \<Rightarrow> session \<Rightarrow> session" where
  "handleRequest E path rid s =
     (case (if drop 1 path = [] \<or> drop 1 path = ''/'' then getRelativePath E s
            else Inr (drop 1 path)) of
        Inl f \<Rightarrow> throw rid f s
      | Inr reqPath \<Rightarrow>
          if reqPath = uuid E @ ''_console.js''
          then sendFileContent E
                 (if isConsole s \<or> legacyConsole E
                  then ASSETS_DIRECTORY E @ ''/js/build/console.build.js''
                  else DATA_STORAGE E @ ''/eruda.js'')
                 rid (Some ''application/javascript'') s
          else if reqPath = EXECUTING_SCRIPT s
          then sendText (case activeFile E of None \<Rightarrow> [] | Some f \<Rightarrow> getValue f) rid
                 (Some ''application/javascript'') s
          else if reqPath = uuid E @ ''_md.css''
          then (case markdownStyle E of
                  None \<Rightarrow> sendText ''img {max-width: 100%;}'' rid (Some ''text/css'') s
                | Some url \<Rightarrow>
                    if url = [] then sendText ''img {max-width: 100%;}'' rid (Some ''text/css'') s
                    else sendFileContent E url rid (Some ''text/css'') s)
          else sendByExt E reqPath (extname E reqPath) rid s)"


section \<open>A sample environment\<close>

text \<open>
  Stand-ins for the collaborators, for the worked examples below: a protocol is what
  precedes \<open>://\<close>, an extension what follows the last dot, \<open>join\<close> puts one slash
  between its arguments, the hash keeps the letters and digits, nothing fails to
  decode, no file exists. \<open>sampleSession\<close> is a session whose server listens on port 8158
  for the file \<open>/sdcard/proj/index.html\<close>, with nothing sent yet.
\<close>

definition sampleEnv :: env where
  "sampleEnv =
     \<lparr>getProtocol = (\<lambda>p. if includesStr p ''://''
                           then takeWhile (\<lambda>c. c \<noteq> CHR '':'') p @ '':'' else []),
      extname = (\<lambda>p. if CHR ''.'' \<in> set p
                       then CHR ''.'' # rev (takeWhile (\<lambda>c. c \<noteq> CHR ''.'') (rev p)) else []),
      join = (\<lambda>a b. removeTrailingSlashes a @ ''/'' @ b),
      lookup = map_of [(''.html'', ''text/html''), (''html'', ''text/html''),
                       (''.txt'', ''text/plain''), (''.js'', ''application/javascript''),
                       (''.md'', ''text/markdown'')],
      hashCode = filter isLowerAlnum,
      decodeURIComponent = Some,
      CACHE_STORAGE = ''/cache'',
      ASSETS_DIRECTORY = ''/assets'',
      DATA_STORAGE = ''/data'',
      uuid = ''u1'',
      injected = (\<lambda>t. ''<!--u1-->''),
      consoleHtml = (\<lambda>x. ''<html>console '' @ x @ ''</html>''),
      renderMarkdown = (\<lambda>t. ''<html>'' @ t @ ''</html>''),
      legacyConsole = False,
      markdownStyle = None,
      activeFile = None,
      addedFolder0 = Some ''/sdcard/proj'',
      getFile = (\<lambda>u. None),
      fsExists = (\<lambda>u. Some False),
      fsStat = (\<lambda>u. Some (False, False)),
      fsReadFile = (\<lambda>u. None),
      isPowerSaveMode = Some False\<rparr>"

definition sampleSession :: session where
  "sampleSession =
     \<lparr>webServer = Some 8158, port = 8158, target = InApp, isConsole = False,
      isLoading = False, isFallback = False, fileName = ''index.html'',
      pathName = Some ''/sdcard/proj'', EXECUTING_SCRIPT = ''u1_script.js'',
      queue = [], sent = [], suspended = [], escaped = [], created = [8158], stops = 0,
      opened = [], alerts = 0\<rparr>"

text \<open>The file \<open>/sdcard/proj/index.html\<close> as the active file: saved, in a folder.\<close>

definition sampleFile :: editorFile where
  "sampleFile =
     \<lparr>filename = ''index.html'', location = Some ''/sdcard/proj'',
      uri = Some ''/sdcard/proj/index.html'', mode = ''tree'', SAFMode = ''tree'',
      loaded = True, isUnsaved = False, getValue = ''<html></html>''\<rparr>"



section \<open>Properties of the string operations\<close>

lemma startsWith_append: "startsWith (p @ r) p"
  by (induction p) auto

lemma startsWith_iff: "startsWith s p \<longleftrightarrow> (\<exists>r. s = p @ r)"
proof (induction s p rule: startsWith.induct)
  case (1 s) show ?case by simp
next
  case (2 p ps) show ?case by simp
next
  case (3 c cs p ps) then show ?case by auto
qed

lemma includes_iff: "includesStr s p \<longleftrightarrow> (\<exists>a b. s = a @ p @ b)"
proof (induction s)
  case Nil show ?case by simp
next
  case (Cons c cs)
  show ?case
  proof
    assume "includesStr (c # cs) p"
    then consider "startsWith (c # cs) p" | "includesStr cs p" by auto
    then show "\<exists>a b. c # cs = a @ p @ b"
    proof cases
      case 1
      then obtain r where "c # cs = p @ r" by (auto simp: startsWith_iff)
      then have "c # cs = [] @ p @ r" by simp
      then show ?thesis by blast
    next
      case 2
      then obtain a b where "cs = a @ p @ b" using Cons.IH by auto
      then have "c # cs = (c # a) @ p @ b" by simp
      then show ?thesis by blast
    qed
  next
    assume "\<exists>a b. c # cs = a @ p @ b"
    then obtain a b where ab: "c # cs = a @ p @ b" by auto
    show "includesStr (c # cs) p"
    proof (cases a)
      case Nil
      then have "startsWith (c # cs) p" using ab by (auto simp: startsWith_iff)
      then show ?thesis by simp
    next
      case (Cons x xs)
      then have "cs = xs @ p @ b" using ab by simp
      then have "includesStr cs p" using Cons.IH by blast
      then show ?thesis by simp
    qed
  qed
qed













section \<open>Heading slugs: the claim about \<open>slugify\<close>\<close>









section \<open>Injection: the claim about \<open>sendHTML\<close>\<close>

text \<open>
  Claim C8 says that the output of the injection always holds the injected block. For
  a document whose only root tag is an upper-case \<open><HTML>\<close> the test \<open>/<html>/i\<close> succeeds
  and the case-sensitive \<open>replace("<html>", ...)\<close> then finds nothing to replace: for
  every block \<open>js\<close> the text is served as it came, and the sample block is not in it.
\<close>

theorem instrument_uppercase_html_unchanged:
  "instrument js ''<HTML><body>hi</body></HTML>'' = ''<HTML><body>hi</body></HTML>'' \<and>
   \<not> includesStr (instrument ''<!--u1-->'' ''<HTML><body>hi</body></HTML>'') ''<!--u1-->''"
  by (simp add: instrument_def toLowerCase_def)


section \<open>The fetch serializer: the claims about \<open>sendFile\<close>\<close>

lemma send_fields [simp]:
  "suspended (send r s) = suspended s" "isLoading (send r s) = isLoading s"
  "queue (send r s) = queue s" "escaped (send r s) = escaped s"
  by (auto simp: send_def split: option.splits)

lemma error_fields [simp]:
  "suspended (error r s) = suspended s" "isLoading (error r s) = isLoading s"
  "queue (error r s) = queue s" "escaped (error r s) = escaped s"
  by (auto simp: error_def)

lemma throw_fields [simp]:
  "suspended (throw r f s) = suspended s" "isLoading (throw r f s) = isLoading s"
  "queue (throw r f s) = queue s" "sent (throw r f s) = sent s"
  by (auto simp: throw_def)

lemma sent_send: "webServer s = Some h \<Longrightarrow> sent (send r s) = sent s @ [r]"
  by (simp add: send_def)








text \<open>
  Claim C2 says that every completed fetch, served or failed, is followed by the
  earliest queued request. In the code a served fetch is followed by the latest one:
  with the requests 2 and 3 queued behind the fetch of request 1, request 3 is read
  next and request 2 stays queued. A failed fetch is followed by none: both stay queued
  and nothing is read.
\<close>

theorem sendFile_runs_latest_queued_first:
  assumes "includesStr (getProtocol E p1) ''ftp:''"
    and "includesStr (getProtocol E p3) ''ftp:''"
    and "\<not> isLoading s" and "suspended s = []" and "queue s = []"
    and "webServer s = Some h"
  shows "sent (run E [Invoke p1 i1, Invoke p2 i2, Invoke p3 i3, Settle 0 (Text c)] s) =
           sent s @ [fileResponse i1
                       (join E (CACHE_STORAGE E) (butlast (getProtocol E p1) @ hashCode E p1))
                       (lookup E (extname E p1))] \<and>
         queue (run E [Invoke p1 i1, Invoke p2 i2, Invoke p3 i3, Settle 0 (Text c)] s) = [(p2, i2)] \<and>
         suspended (run E [Invoke p1 i1, Invoke p2 i2, Invoke p3 i3, Settle 0 (Text c)] s) =
           [RemoteRead i3 (lookup E (extname E p3))
              (join E (CACHE_STORAGE E) (butlast (getProtocol E p3) @ hashCode E p3))] \<and>
         queue (run E [Invoke p1 i1, Invoke p2 i2, Invoke p3 i3, Settle 0 Rejected] s) =
           [(p2, i2), (p3, i3)] \<and>
         suspended (run E [Invoke p1 i1, Invoke p2 i2, Invoke p3 i3, Settle 0 Rejected] s) = [] \<and>
         sent (run E [Invoke p1 i1, Invoke p2 i2, Invoke p3 i3, Settle 0 Rejected] s) =
           sent s @ [notFound i1]"
  using assms
  by (simp add: sendFile.simps deliver.simps Let_def error_def send_def notFound_def
        fileResponse_def)

theorem sendFile_runs_latest_queued_first_witness:
  "sent (run sampleEnv [Invoke ''sftp://host/a.txt'' ''1'', Invoke ''sftp://host/b.txt'' ''2'',
                        Invoke ''sftp://host/c.txt'' ''3'', Settle 0 (Text ''abc'')] sampleSession) =
     [fileResponse ''1'' ''/cache/sftpsftphostatxt'' (Some ''text/plain'')] \<and>
   queue (run sampleEnv [Invoke ''sftp://host/a.txt'' ''1'', Invoke ''sftp://host/b.txt'' ''2'',
                         Invoke ''sftp://host/c.txt'' ''3'', Settle 0 (Text ''abc'')] sampleSession) =
     [(''sftp://host/b.txt'', ''2'')] \<and>
   suspended (run sampleEnv [Invoke ''sftp://host/a.txt'' ''1'', Invoke ''sftp://host/b.txt'' ''2'',
                         Invoke ''sftp://host/c.txt'' ''3'', Settle 0 (Text ''abc'')] sampleSession) =
     [RemoteRead ''3'' (Some ''text/plain'') ''/cache/sftpsftphostctxt''] \<and>
   queue (run sampleEnv [Invoke ''sftp://host/a.txt'' ''1'', Invoke ''sftp://host/b.txt'' ''2'',
                         Invoke ''sftp://host/c.txt'' ''3'', Settle 0 Rejected] sampleSession) =
     [(''sftp://host/b.txt'', ''2''), (''sftp://host/c.txt'', ''3'')]"
proof -
  have a: "includesStr (getProtocol sampleEnv ''sftp://host/a.txt'') ''ftp:''"
    and c: "includesStr (getProtocol sampleEnv ''sftp://host/c.txt'') ''ftp:''"
    by (simp_all add: sampleEnv_def)
  have s: "\<not> isLoading sampleSession" "suspended sampleSession = []"
    "queue sampleSession = []" "webServer sampleSession = Some 8158"
    by (simp_all add: sampleSession_def)
  have v: "sent sampleSession = []"
    "lookup sampleEnv (extname sampleEnv ''sftp://host/a.txt'') = Some ''text/plain''"
    "lookup sampleEnv (extname sampleEnv ''sftp://host/c.txt'') = Some ''text/plain''"
    "join sampleEnv (CACHE_STORAGE sampleEnv)
       (butlast (getProtocol sampleEnv ''sftp://host/a.txt'') @
        hashCode sampleEnv ''sftp://host/a.txt'') = ''/cache/sftpsftphostatxt''"
    "join sampleEnv (CACHE_STORAGE sampleEnv)
       (butlast (getProtocol sampleEnv ''sftp://host/c.txt'') @
        hashCode sampleEnv ''sftp://host/c.txt'') = ''/cache/sftpsftphostctxt''"
    by (simp_all add: sampleEnv_def sampleSession_def removeTrailingSlashes_def
          isLowerAlnum_def)
  note t = sendFile_runs_latest_queued_first [OF a c s, of "''1''" "''sftp://host/b.txt''"
        "''2''" "''3''" "''abc''"]
  from t show ?thesis unfolding v append_Nil by (elim conjE) (intro conjI; assumption)
qed

text \<open>
  Claim C3 says that a request queued behind a failed remote read still attempts its
  own read. In the code the \<open>catch\<close> branch sends the 404, clears the flag and returns
  without taking anything from the pending list: the second request stays queued,
  no read is started for it and it gets no response.
\<close>

theorem sendFile_failed_read_strands_queued:
  assumes "includesStr (getProtocol E p1) ''ftp:''"
    and "\<not> isLoading s" and "suspended s = []" and "queue s = []"
    and "webServer s = Some h"
  shows "sent (run E [Invoke p1 i1, Invoke p2 i2, Settle 0 Rejected] s) = sent s @ [notFound i1] \<and>
         queue (run E [Invoke p1 i1, Invoke p2 i2, Settle 0 Rejected] s) = [(p2, i2)] \<and>
         suspended (run E [Invoke p1 i1, Invoke p2 i2, Settle 0 Rejected] s) = [] \<and>
         \<not> isLoading (run E [Invoke p1 i1, Invoke p2 i2, Settle 0 Rejected] s)"
  using assms
  by (simp add: sendFile.simps Let_def error_def send_def notFound_def)

theorem sendFile_failed_read_strands_queued_witness:
  "run sampleEnv [Invoke ''sftp://host/a.txt'' ''1'', Invoke ''sftp://host/b.txt'' ''2'',
                  Settle 0 Rejected] sampleSession =
   sampleSession\<lparr>queue := [(''sftp://host/b.txt'', ''2'')], sent := [notFound ''1'']\<rparr>"
proof -
  have a: "includesStr (getProtocol sampleEnv ''sftp://host/a.txt'') ''ftp:''"
    by (simp add: sampleEnv_def)
  have s: "\<not> isLoading sampleSession" "suspended sampleSession = []"
    "queue sampleSession = []" "webServer sampleSession = Some 8158"
    by (simp_all add: sampleSession_def)
  have "sent (run sampleEnv [Invoke ''sftp://host/a.txt'' ''1'',
          Invoke ''sftp://host/b.txt'' ''2'', Settle 0 Rejected] sampleSession) =
        sent sampleSession @ [notFound ''1'']"
    using sendFile_failed_read_strands_queued [OF a s, of "''1''" "''sftp://host/b.txt''" "''2''"]
    by simp
  then show ?thesis
    by (simp add: sampleEnv_def sampleSession_def sendFile.simps error_def send_def
          notFound_def removeTrailingSlashes_def isLowerAlnum_def)
qed


section \<open>The claim about \<open>sendFileContent\<close>\<close>

text \<open>
  Claim C10: when the file at the URL does not exist, \<open>sendFileContent\<close> produces no
  200 response. It sends nothing or the 404 only; with a server to send through, the
  404 is what it sends when the fallback file, \<open>pathName\<close> joined with \<open>filename\<close>, does
  not exist either; and when the fallback file exists it sets \<open>isFallback\<close> and returns
  with no response at all.
\<close>

theorem sendFileContent_missing_file_no_200:
  assumes "fsExists E url = Some False"
  shows "(sent (sendFileContent E url rid mime s) = sent s \<or>
          sent (sendFileContent E url rid mime s) = sent s @ [notFound rid]) \<and>
         (\<forall>dir h. pathName s = Some dir \<and> fsExists E (join E dir (fileName s)) = Some False \<and>
                 webServer s = Some h \<longrightarrow>
            sent (sendFileContent E url rid mime s) = sent s @ [notFound rid]) \<and>
         (\<forall>dir. pathName s = Some dir \<and> fsExists E (join E dir (fileName s)) = Some True \<longrightarrow>
            sendFileContent E url rid mime s = s\<lparr>isFallback := True\<rparr>)"
  using assms
  by (auto simp: sendFileContent_def error_def send_def notFound_def
      split: option.splits bool.splits)

theorem sendFileContent_missing_file_no_200_witness:
  "fsExists sampleEnv ''/sdcard/proj/app.js'' = Some False \<and>
   sent (sendFileContent sampleEnv ''/sdcard/proj/app.js'' ''7''
           (Some ''application/javascript'') sampleSession) = [notFound ''7''] \<and>
   fsExists (sampleEnv\<lparr>fsExists := \<lambda>u. Some (u = ''/sdcard/proj/index.html'')\<rparr>)
     ''/sdcard/proj/app.js'' = Some False \<and>
   sendFileContent (sampleEnv\<lparr>fsExists := \<lambda>u. Some (u = ''/sdcard/proj/index.html'')\<rparr>)
     ''/sdcard/proj/app.js'' ''7'' (Some ''application/javascript'') sampleSession =
     sampleSession\<lparr>isFallback := True\<rparr>"
proof -
  let ?E = "sampleEnv\<lparr>fsExists := \<lambda>u. Some (u = ''/sdcard/proj/index.html'')\<rparr>"
  have a: "fsExists sampleEnv ''/sdcard/proj/app.js'' = Some False"
    by (simp add: sampleEnv_def)
  have b: "fsExists ?E ''/sdcard/proj/app.js'' = Some False"
    by (simp add: sampleEnv_def)
  have p: "pathName sampleSession = Some ''/sdcard/proj''"
    "webServer sampleSession = Some 8158" "sent sampleSession = []"
    "fileName sampleSession = ''index.html''"
    by (simp_all add: sampleSession_def)
  have ja: "fsExists sampleEnv (join sampleEnv ''/sdcard/proj'' ''index.html'') = Some False"
    by (simp add: sampleEnv_def)
  have jb: "fsExists ?E (join ?E ''/sdcard/proj'' ''index.html'') = Some True"
    by (simp add: sampleEnv_def removeTrailingSlashes_def)
  from sendFileContent_missing_file_no_200 [OF a, of "''7''" "Some ''application/javascript''"
      sampleSession] p ja
  have 1: "sent (sendFileContent sampleEnv ''/sdcard/proj/app.js'' ''7''
           (Some ''application/javascript'') sampleSession) = [notFound ''7'']"
    by simp
  from sendFileContent_missing_file_no_200 [OF b, of "''7''" "Some ''application/javascript''"
      sampleSession] p jb
  have 2: "sendFileContent ?E ''/sdcard/proj/app.js'' ''7'' (Some ''application/javascript'')
             sampleSession = sampleSession\<lparr>isFallback := True\<rparr>"
    by simp
  from a b 1 2 show ?thesis by simp
qed


section \<open>The path resolver: the claim about \<open>getRelativePath\<close>\<close>





section \<open>Starting the server: the claim about \<open>onError\<close>\<close>

lemma start_port: "port (start E s) = port s"
  by (auto simp: start_def startServer_def split: option.splits bool.splits)

lemma start_target: "target (start E s) = target s"
  by (auto simp: start_def startServer_def split: option.splits bool.splits)

lemma start_created:
  "target s = InApp \<or> isPowerSaveMode E \<noteq> Some True \<Longrightarrow>
   created (start E s) = created s @ [port s]"
  by (auto simp: start_def startServer_def split: option.splits bool.splits)

lemma onErrors_retry:
  "\<forall>e \<in> set errs. e \<noteq> ''Server already running'' \<Longrightarrow>
   target s = InApp \<or> isPowerSaveMode E \<noteq> Some True \<Longrightarrow>
   port (onErrors E errs s) = port s + int (length errs) \<and>
   created (onErrors E errs s) =
     created s @ map (\<lambda>k. port s + 1 + int k) [0 ..< length errs]"
proof (induction errs arbitrary: s)
  case Nil
  show ?case by simp
next
  case (Cons e es)
  let ?s = "start E (s\<lparr>port := port s + 1\<rparr>)"
  have o: "onError E e s = ?s" using Cons.prems(1) by (simp add: onError_def)
  have p: "port ?s = port s + 1" by (simp add: start_port)
  have t: "target ?s = InApp \<or> isPowerSaveMode E \<noteq> Some True"
    using Cons.prems(2) by (simp add: start_target)
  have c: "created ?s = created s @ [port s + 1]"
    using Cons.prems(2) start_created [of "s\<lparr>port := port s + 1\<rparr>" E] by simp
  have "\<forall>e \<in> set es. e \<noteq> ''Server already running''" using Cons.prems(1) by simp
  from Cons.IH [OF this t]
  have ih: "port (onErrors E es ?s) = port ?s + int (length es)"
    "created (onErrors E es ?s) = created ?s @ map (\<lambda>k. port ?s + 1 + int k) [0 ..< length es]"
    by simp_all
  have m: "map (\<lambda>k. port s + 1 + int k) [0 ..< Suc (length es)] =
           (port s + 1) # map (\<lambda>k. port s + 1 + 1 + int k) [0 ..< length es]"
    by (simp only: upt_conv_Cons [of 0 "Suc (length es)"] map_Suc_upt [symmetric])
       (simp add: comp_def)
  show ?case using o ih p c m by simp
qed

text \<open>
  Claim C9. On the bind failure \<open>Server already running\<close> the error callback only opens
  the browser: no server is created or stopped, the handle and the port stay, and
  the browser is opened on the current port. On any other failure the port is
  incremented by one and \<open>start()\<close> runs again. Nothing caps the retries: after any
  number \<open>n\<close> of such failures in a row the port is the first one plus \<open>n\<close>, with a
  server created on each port in between (\<open>start()\<close> creates it unless the target is
  the browser and the device is in power-save mode).
\<close>

theorem onError_same_owner_or_retry:
  "onError E ''Server already running'' s = openBrowser E s \<and>
   created (onError E ''Server already running'' s) = created s \<and>
   stops (onError E ''Server already running'' s) = stops s \<and>
   webServer (onError E ''Server already running'' s) = webServer s \<and>
   port (onError E ''Server already running'' s) = port s \<and>
   (\<forall>dir p. pathName s = Some dir \<and> getRelativePath E s = Inr p \<longrightarrow>
      opened (onError E ''Server already running'' s) =
        opened s @ [\<lparr>onPort = port s, onPath = p, via = target s\<rparr>]) \<and>
   (err \<noteq> ''Server already running'' \<longrightarrow>
      onError E err s = start E (s\<lparr>port := port s + 1\<rparr>)) \<and>
   ((\<forall>e \<in> set errs. e \<noteq> ''Server already running'') \<and>
    (target s = InApp \<or> isPowerSaveMode E \<noteq> Some True) \<longrightarrow>
      port (onErrors E errs s) = port s + int (length errs) \<and>
      created (onErrors E errs s) =
        created s @ map (\<lambda>k. port s + 1 + int k) [0 ..< length errs])"
proof -
  have a: "onError E ''Server already running'' s = openBrowser E s"
    by (simp add: onError_def)
  have b: "created (openBrowser E s) = created s \<and> stops (openBrowser E s) = stops s \<and>
           webServer (openBrowser E s) = webServer s \<and> port (openBrowser E s) = port s"
    by (auto simp: openBrowser_def openUrl_def throw_def split: option.splits sum.splits)
  have c: "\<forall>dir p. pathName s = Some dir \<and> getRelativePath E s = Inr p \<longrightarrow>
      opened (openBrowser E s) = opened s @ [\<lparr>onPort = port s, onPath = p, via = target s\<rparr>]"
    by (auto simp: openBrowser_def openUrl_def)
  have d: "err \<noteq> ''Server already running'' \<longrightarrow>
      onError E err s = start E (s\<lparr>port := port s + 1\<rparr>)"
    by (simp add: onError_def)
  show ?thesis using a b c d onErrors_retry [of errs s E] by simp
qed

lemma sample_relative_path: "getRelativePath sampleEnv sampleSession = Inr ''index.html''"
  by (simp add: getRelativePath_def chooseRoot_def termuxUri_def makeUriAbsoluteIfNeeded_def
      termuxRootEncoded_def termuxRelative_def contentRelative_def sampleEnv_def
      sampleSession_def removeTrailingSlashes_def)

theorem onError_same_owner_or_retry_witness:
  "pathName sampleSession = Some ''/sdcard/proj'' \<and>
   getRelativePath sampleEnv sampleSession = Inr ''index.html'' \<and>
   onError sampleEnv ''Server already running'' sampleSession =
     sampleSession\<lparr>opened := [\<lparr>onPort = 8158, onPath = ''index.html'', via = InApp\<rparr>]\<rparr> \<and>
   ''EADDRINUSE'' \<noteq> ''Server already running'' \<and>
   created (onError sampleEnv ''EADDRINUSE'' sampleSession) = [8158, 8159] \<and>
   ''EACCES'' \<noteq> ''Server already running'' \<and>
   target sampleSession = InApp \<and>
   port (onErrors sampleEnv [''EADDRINUSE'', ''EACCES'', ''EADDRINUSE''] sampleSession) = 8161 \<and>
   created (onErrors sampleEnv [''EADDRINUSE'', ''EACCES'', ''EADDRINUSE''] sampleSession) =
     [8158, 8159, 8160, 8161]"
proof -
  note t = onError_same_owner_or_retry [of sampleEnv sampleSession "''EADDRINUSE''"
      "[''EADDRINUSE'', ''EACCES'', ''EADDRINUSE'']"]
  have p: "pathName sampleSession = Some ''/sdcard/proj''" "target sampleSession = InApp"
    "port sampleSession = 8158" "created sampleSession = [8158]"
    by (simp_all add: sampleSession_def)
  have n: "''EADDRINUSE'' \<noteq> ''Server already running''"
    "\<forall>e \<in> set [''EADDRINUSE'', ''EACCES'', ''EADDRINUSE'']. e \<noteq> ''Server already running''"
    by simp_all
  have u: "[0 ..< length [''EADDRINUSE'', ''EACCES'', ''EADDRINUSE'']] = [0, 1, 2]"
    by (simp add: upt_rec)
  from t have "(\<forall>e \<in> set [''EADDRINUSE'', ''EACCES'', ''EADDRINUSE''].
                   e \<noteq> ''Server already running'') \<and>
                (target sampleSession = InApp \<or> isPowerSaveMode sampleEnv \<noteq> Some True) \<longrightarrow>
      port (onErrors sampleEnv [''EADDRINUSE'', ''EACCES'', ''EADDRINUSE''] sampleSession) =
        port sampleSession + int (length [''EADDRINUSE'', ''EACCES'', ''EADDRINUSE'']) \<and>
      created (onErrors sampleEnv [''EADDRINUSE'', ''EACCES'', ''EADDRINUSE''] sampleSession) =
        created sampleSession @
        map (\<lambda>k. port sampleSession + 1 + int k)
          [0 ..< length [''EADDRINUSE'', ''EACCES'', ''EADDRINUSE'']]"
    by (elim conjE)
  with n p have r: "port (onErrors sampleEnv [''EADDRINUSE'', ''EACCES'', ''EADDRINUSE'']
                        sampleSession) = 8161"
    "created (onErrors sampleEnv [''EADDRINUSE'', ''EACCES'', ''EADDRINUSE''] sampleSession) =
       [8158, 8159, 8160, 8161]"
    by (simp_all del: onErrors.simps add: u)
  from t n have "onError sampleEnv ''EADDRINUSE'' sampleSession =
                 start sampleEnv (sampleSession\<lparr>port := port sampleSession + 1\<rparr>)"
    by blast
  then have c: "created (onError sampleEnv ''EADDRINUSE'' sampleSession) = [8158, 8159]"
    by (simp add: start_def startServer_def sampleSession_def)
  from t have "onError sampleEnv ''Server already running'' sampleSession =
               openBrowser sampleEnv sampleSession"
    by blast
  then have o: "onError sampleEnv ''Server already running'' sampleSession =
     sampleSession\<lparr>opened := [\<lparr>onPort = 8158, onPath = ''index.html'', via = InApp\<rparr>]\<rparr>"
    by (simp add: openBrowser_def openUrl_def sample_relative_path p) (simp add: sampleSession_def)
  from p n r c o sample_relative_path show ?thesis by simp
qed


section \<open>The request handler: the claims about \<open>sendByExt\<close>\<close>

text \<open>
  Claim C5 says that a request for a \<open>.md\<close> path with no open document gets a 404. In
  the code the \<open>.md\<close> case of the \<open>switch\<close> is an \<open>if (file)\<close> with no \<open>else\<close>: when the
  file exists on disk and no document is open for it, \<open>sendByExt\<close> returns with the
  session as it was. Nothing is sent, neither the 404 nor the file (markdown is never
  read from disk, as the claim says).
\<close>

theorem sendByExt_md_without_document_no_response:
  assumes "activeFile E = Some af" and "mode af \<noteq> ''single''"
    and "pathName s = Some dir" and "dir \<noteq> []" and "uri af = Some u"
    and "fsStat E (fullPathOf E dir reqPath) = Some (True, isFile)"
    and "\<And>url. getFile E url = None"
    and "\<not> isConsole s"
  shows "sendByExt E reqPath ''.md'' rid s = s \<and> sent (sendByExt E reqPath ''.md'' rid s) = sent s"
  using assms by (simp add: sendByExt_def byExt_def Let_def)

lemma sample_fullPath:
  "fullPathOf (sampleEnv\<lparr>activeFile := Some sampleFile, fsStat := f\<rparr>) ''/sdcard/proj'' ''report.md'' =
     ''/sdcard/proj/report.md''"
  by (simp add: fullPathOf_def sampleEnv_def removeTrailingSlashes_def
      removeLeadingSlashes_def findOverlap_def removePrefix_def)

theorem sendByExt_md_without_document_no_response_witness:
  "handleRequest
     (sampleEnv\<lparr>activeFile := Some sampleFile,
                fsStat := \<lambda>u. Some (u = ''/sdcard/proj/report.md'', True)\<rparr>)
     ''/report.md'' ''9'' sampleSession = sampleSession \<and>
   sent sampleSession = []"
proof -
  let ?E = "sampleEnv\<lparr>activeFile := Some sampleFile,
                fsStat := \<lambda>u. Some (u = ''/sdcard/proj/report.md'', True)\<rparr>"
  have a: "activeFile ?E = Some sampleFile" "mode sampleFile \<noteq> ''single''"
    "pathName sampleSession = Some ''/sdcard/proj''" "''/sdcard/proj'' \<noteq> []"
    "uri sampleFile = Some ''/sdcard/proj/index.html''"
    by (simp_all add: sampleFile_def sampleSession_def)
  have b: "fsStat ?E (fullPathOf ?E ''/sdcard/proj'' ''report.md'') = Some (True, True)"
    by (simp only: sample_fullPath) simp
  have c: "\<And>url. getFile ?E url = None" by (simp add: sampleEnv_def)
  have d: "\<not> isConsole sampleSession" by (simp add: sampleSession_def)
  have "sendByExt ?E ''report.md'' ''.md'' ''9'' sampleSession = sampleSession"
    using sendByExt_md_without_document_no_response [OF a b c d] by simp
  moreover have "extname ?E ''report.md'' = ''.md''" "uuid ?E = ''u1''"
    "EXECUTING_SCRIPT sampleSession = ''u1_script.js''"
    by (simp_all add: sampleEnv_def sampleSession_def)
  ultimately show ?thesis
    by (simp add: handleRequest_def) (simp add: sampleSession_def)
qed

text \<open>
  Claim C4 says that a request that resolves to nothing gets a 404 and never a thrown
  fault, and that every failure of the file system or the network inside request
  handling is caught and turned into a 404 or a silent fallback. In the code
  \<^item> the \<open>await urlFile.stat()\<close> of \<open>sendByExt\<close> is outside every \<open>try\<close>: when it rejects,
    the handler ends in that exception and sends nothing;
  \<^item> so does \<open>sendFile\<close> when the promise of a \<open>content:\<close> path rejects, and it leaves
    \<open>isLoading\<close> set;
  \<^item> in a console run \<open>activeFile\<close> is \<open>null\<close>, and every request but those for
    \<open>console.html\<close> and \<open>favicon.ico\<close> ends in the \<open>TypeError\<close> of \<open>activeFile.mode\<close>.
\<close>

theorem request_failure_escapes_handler:
  "(activeFile E = Some af \<and> mode af \<noteq> ''single'' \<and> pathName s = Some dir \<and> dir \<noteq> [] \<and>
    uri af = Some u \<and> fsStat E (fullPathOf E dir reqPath) = None \<and> \<not> isConsole s \<longrightarrow>
      sendByExt E reqPath ext rid s = throw rid IOError s \<and>
      sent (sendByExt E reqPath ext rid s) = sent s \<and>
      escaped (sendByExt E reqPath ext rid s) = escaped s @ [(rid, IOError)]) \<and>
   (getProtocol E path = ''content:'' \<and> \<not> isLoading s \<and> suspended s = [] \<longrightarrow>
      sent (run E [Invoke path rid, Settle 0 Rejected] s) = sent s \<and>
      escaped (run E [Invoke path rid, Settle 0 Rejected] s) = escaped s @ [(rid, IOError)] \<and>
      isLoading (run E [Invoke path rid, Settle 0 Rejected] s)) \<and>
   (activeFile E = None \<and> reqPath \<noteq> ''console.html'' \<and> reqPath \<noteq> ''favicon.ico'' \<longrightarrow>
      sendByExt E reqPath ext rid s = throw rid TypeError s \<and>
      sent (sendByExt E reqPath ext rid s) = sent s)"
  by (simp add: sendByExt_def throw_def sendFile.simps Let_def)

theorem request_failure_escapes_handler_witness:
  "handleRequest (sampleEnv\<lparr>activeFile := Some sampleFile, fsStat := \<lambda>u. None\<rparr>)
     ''/report.md'' ''4'' sampleSession =
     sampleSession\<lparr>escaped := [(''4'', IOError)]\<rparr> \<and>
   getProtocol sampleEnv ''content://docs/logo.png'' = ''content:'' \<and>
   run sampleEnv [Invoke ''content://docs/logo.png'' ''4'', Settle 0 Rejected] sampleSession =
     sampleSession\<lparr>isLoading := True, escaped := [(''4'', IOError)]\<rparr> \<and>
   activeFile sampleEnv = None \<and>
   handleRequest sampleEnv ''/style.css'' ''5'' (sampleSession\<lparr>isConsole := True\<rparr>) =
     sampleSession\<lparr>isConsole := True, escaped := [(''5'', TypeError)]\<rparr>"
proof -
  let ?E = "sampleEnv\<lparr>activeFile := Some sampleFile, fsStat := \<lambda>u. None\<rparr>"
  let ?c = "sampleSession\<lparr>isConsole := True\<rparr>"
  have a: "activeFile ?E = Some sampleFile" "mode sampleFile \<noteq> ''single''"
    "pathName sampleSession = Some ''/sdcard/proj''" "''/sdcard/proj'' \<noteq> []"
    "uri sampleFile = Some ''/sdcard/proj/index.html''"
    "fsStat ?E (fullPathOf ?E ''/sdcard/proj'' ''report.md'') = None"
    "\<not> isConsole sampleSession"
    by (simp_all add: sampleFile_def sampleSession_def)
  have n: "activeFile sampleEnv = None" by (simp add: sampleEnv_def)
  have g: "getProtocol sampleEnv ''content://docs/logo.png'' = ''content:''"
    by (simp add: sampleEnv_def)
  from request_failure_escapes_handler [of ?E sampleFile sampleSession "''/sdcard/proj''"
      "''/sdcard/proj/index.html''" "''report.md''" "''.md''" "''4''"] a
  have 1: "sendByExt ?E ''report.md'' ''.md'' ''4'' sampleSession =
           throw ''4'' IOError sampleSession"
    by blast
  from request_failure_escapes_handler [of sampleEnv _ ?c _ _ "''style.css''" "''.css''" "''5''"] n
  have 3: "sendByExt sampleEnv ''style.css'' ''.css'' ''5'' ?c = throw ''5'' TypeError ?c"
    by simp
  have "handleRequest ?E ''/report.md'' ''4'' sampleSession =
        sendByExt ?E ''report.md'' ''.md'' ''4'' sampleSession"
    by (simp add: handleRequest_def sampleEnv_def sampleSession_def)
  also note 1
  finally have h: "handleRequest ?E ''/report.md'' ''4'' sampleSession =
     sampleSession\<lparr>escaped := [(''4'', IOError)]\<rparr>"
    by (simp add: throw_def sampleSession_def)
  have "handleRequest sampleEnv ''/style.css'' ''5'' ?c =
        sendByExt sampleEnv ''style.css'' ''.css'' ''5'' ?c"
    by (simp add: handleRequest_def sampleEnv_def sampleSession_def)
  also note 3
  finally have k: "handleRequest sampleEnv ''/style.css'' ''5'' ?c =
     sampleSession\<lparr>isConsole := True, escaped := [(''5'', TypeError)]\<rparr>"
    by (simp add: throw_def sampleSession_def)
  have r: "run sampleEnv [Invoke ''content://docs/logo.png'' ''4'', Settle 0 Rejected]
             sampleSession =
     sampleSession\<lparr>isLoading := True, escaped := [(''4'', IOError)]\<rparr>"
    by (simp add: sendFile.simps Let_def sampleEnv_def throw_def sampleSession_def)
  from h g r n k show ?thesis by simp
qed

end
